theory Spec2Isabelle
  imports Main "HOL-Library.Multiset"
begin

section \<open>Elements of a period\<close>

text \<open>
  The raw element record returned by WebUntis (type \<open>element\<close>): id, name and long name,
  and the optional original id and original name of a substituted element. An absent
  field (\<open>undefined\<close>) is \<open>None\<close>.
\<close>

record element =
  id_raw :: int
  name_raw :: string
  longname_raw :: string
  orgid :: "int option"
  orgname :: "string option"

text \<open>
  Class \<open>PeriodElement\<close> and its subclass \<open>SubstitutedPeriodElement\<close>: the subclass
  is the second constructor, so \<open>instanceof SubstitutedPeriodElement\<close> is a test of the
  constructor.
\<close>

datatype PeriodElement =
    PeriodElement (id_elem: int) (name_elem: string) (longName: string)
  | SubstitutedPeriodElement (id_elem: int) (name_elem: string) (longName: string)
      (originalId: int) (originalName: string)

text \<open>JavaScript truthiness of an optional number and of an optional string.\<close>

definition truthyNumber :: "int option \<Rightarrow> bool" where
  "truthyNumber v = (case v of None \<Rightarrow> False | Some n \<Rightarrow> n \<noteq> 0)"

definition truthyString :: "string option \<Rightarrow> bool" where
  "truthyString v = (case v of None \<Rightarrow> False | Some s \<Rightarrow> s \<noteq> [])"

text \<open>\<open>PeriodElement.from\<close>: the condition is \<open>element.orgid && element.orgname\<close>.\<close>

definition PeriodElement_from :: "element \<Rightarrow> PeriodElement" where
  "PeriodElement_from e =
     (if truthyNumber (orgid e) \<and> truthyString (orgname e)
      then (case (orgid e, orgname e) of
              (Some oi, Some on) \<Rightarrow>
                SubstitutedPeriodElement (id_raw e) (name_raw e) (longname_raw e) oi on
            | _ \<Rightarrow> PeriodElement (id_raw e) (name_raw e) (longname_raw e))
      else PeriodElement (id_raw e) (name_raw e) (longname_raw e))"

fun isSubstituted :: "PeriodElement \<Rightarrow> bool" where
  "isSubstituted (SubstitutedPeriodElement _ _ _ _ _) = True"
| "isSubstituted (PeriodElement _ _ _) = False"

section \<open>Periods\<close>

datatype lessonType = Lesson | OfficeHour | Standby | BreakSupervision | Exam

datatype lessonCode = Regular | Cancelled | Irregular

datatype activityType = Unterricht | Bereitschaft

record elements =
  classes :: "PeriodElement list"
  teachers :: "PeriodElement list"
  subjects :: "PeriodElement list"
  rooms :: "PeriodElement list"

text \<open>
  The fields of class \<open>Period\<close>. The constructor's parameter list has the same twelve
  components, so a value of this record also stands for the arguments of \<open>new Period\<close>.
\<close>

record Period =
  id_period :: int
  lessonType :: lessonType
  lessonCode :: lessonCode
  lessonNumber :: int
  lessonText :: string
  substitutionText :: "string option"
  activityType :: activityType
  studentGroup :: "string option"
  elements :: elements
  date :: string
  startTime :: string
  endTime :: string

datatype error = ValidationError

subsection \<open>Format checks\<close>

definition isDigit :: "char \<Rightarrow> bool" where
  "isDigit c = (c \<in> set ''0123456789'')"

text \<open>
  Modelled from the spec: \<open>testDate\<close> and \<open>testTime\<close> of \<open>lib/timeformat\<close> are not
  among the sources. The spec says that construction validates the date string and both
  time strings against the canonical formats \<open>yyyy-mm-dd\<close> and \<open>hh:mm\<close> and fails when
  a string does not match. \<open>True\<close> is "does not throw".
\<close>

fun testDate :: "string \<Rightarrow> bool" where
  "testDate [y1, y2, y3, y4, s1, m1, m2, s2, d1, d2] =
     (isDigit y1 \<and> isDigit y2 \<and> isDigit y3 \<and> isDigit y4 \<and> s1 = CHR ''-'' \<and>
      isDigit m1 \<and> isDigit m2 \<and> s2 = CHR ''-'' \<and> isDigit d1 \<and> isDigit d2)"
| "testDate _ = False"

text \<open>
  Modelled from the spec: \<open>testTime\<close>, the check of a time string against \<open>hh:mm\<close>.
\<close>

fun testTime :: "string \<Rightarrow> bool" where
  "testTime [h1, h2, s, m1, m2] =
     (isDigit h1 \<and> isDigit h2 \<and> s = CHR '':'' \<and> isDigit m1 \<and> isDigit m2)"
| "testTime _ = False"

subsection \<open>Construction\<close>

text \<open>
  \<open>e.sort((a, b) => a.id - b.id)\<close>: a stable sort with the comparator written out. An
  element goes in front of the first element it does not exceed.
\<close>

fun insertById :: "PeriodElement \<Rightarrow> PeriodElement list \<Rightarrow> PeriodElement list" where
  "insertById e [] = [e]"
| "insertById e (x # xs) =
     (if id_elem e - id_elem x \<le> 0 then e # x # xs else x # insertById e xs)"

fun sortById :: "PeriodElement list \<Rightarrow> PeriodElement list" where
  "sortById [] = []"
| "sortById (e # es) = insertById e (sortById es)"

text \<open>The loop over \<open>Object.values(elements)\<close> sorts each of the four lists.\<close>

definition sortElements :: "elements \<Rightarrow> elements" where
  "sortElements els =
     \<lparr> classes = sortById (classes els), teachers = sortById (teachers els),
       subjects = sortById (subjects els), rooms = sortById (rooms els) \<rparr>"

text \<open>
  The constructor: the three format checks, each of which may throw, then the sorting of
  the element lists. Nothing else is checked.
\<close>

definition Period_new :: "Period \<Rightarrow> error + Period" where
  "Period_new args =
     (if \<not> testDate (date args) then Inl ValidationError
      else if \<not> testTime (startTime args) then Inl ValidationError
      else if \<not> testTime (endTime args) then Inl ValidationError
      else Inr (args\<lparr>elements := sortElements (elements args)\<rparr>))"

subsection \<open>Time units and the runtime's dates\<close>

text \<open>Enum \<open>TimeUnits\<close>: time units in milliseconds.\<close>

definition Millisecond :: int where "Millisecond = 1"
definition Second :: int where "Second = 1000 * Millisecond"
definition Minute :: int where "Minute = 60 * Second"
definition Hour :: int where "Hour = 60 * Minute"
definition Day :: int where "Day = 24 * Hour"
definition Week :: int where "Week = 7 * Day"

text \<open>The value of a decimal digit: its position among the ten digits.\<close>

definition digitVal :: "char \<Rightarrow> int" where
  "digitVal c = int (length (takeWhile (\<lambda>d. d \<noteq> c) ''0123456789''))"

text \<open>
  Days from 1970-01-01 to the given day of the proleptic Gregorian calendar. The result
  is linear in the day, so a day beyond the length of the month counts on into the next.
\<close>

definition daysFromCivil :: "int \<Rightarrow> int \<Rightarrow> int \<Rightarrow> int" where
  "daysFromCivil y m d =
     (let y' = (if m \<le> 2 then y - 1 else y);
          era = y' div 400;
          yoe = y' - era * 400;
          doy = (153 * (if m > 2 then m - 3 else m + 9) + 2) div 5 + d - 1;
          doe = yoe * 365 + yoe div 4 - yoe div 100 + doy
      in era * 146097 + doe - 719468)"

text \<open>
  The JavaScript runtime's \<open>new Date(s).valueOf()\<close> for the two string forms a period
  builds: the date alone (\<open>yyyy-mm-dd\<close>) and date and time (\<open>yyyy-mm-ddThh:mm\<close>). The
  value is the number of milliseconds since the epoch; \<open>None\<close> is \<open>NaN\<close>, the value of an
  invalid date. The strings are read as V8 (Node, Deno) reads them: the month is 01 to
  12; the day is 01 to 31 in every month, and a day beyond the length of the month rolls
  over into the next month; the time is 00:00 to 23:59, or 24:00, the midnight that
  follows. The local time zone is taken to be UTC.
\<close>

fun dateValue :: "string \<Rightarrow> int option" where
  "dateValue [y1, y2, y3, y4, s1, m1, m2, s2, d1, d2] =
     (if testDate [y1, y2, y3, y4, s1, m1, m2, s2, d1, d2] then
        (let y = 1000 * digitVal y1 + 100 * digitVal y2 + 10 * digitVal y3 + digitVal y4;
             m = 10 * digitVal m1 + digitVal m2;
             d = 10 * digitVal d1 + digitVal d2
         in if 1 \<le> m \<and> m \<le> 12 \<and> 1 \<le> d \<and> d \<le> 31
            then Some (daysFromCivil y m d * Day) else None)
      else None)"
| "dateValue _ = None"

fun timeOfDayValue :: "string \<Rightarrow> int option" where
  "timeOfDayValue [h1, h2, s, m1, m2] =
     (if testTime [h1, h2, s, m1, m2] then
        (let h = 10 * digitVal h1 + digitVal h2;
             m = 10 * digitVal m1 + digitVal m2
         in if (h \<le> 23 \<and> m \<le> 59) \<or> (h = 24 \<and> m = 0)
            then Some (h * Hour + m * Minute) else None)
      else None)"
| "timeOfDayValue _ = None"

definition dateTimeValue :: "string \<Rightarrow> int option" where
  "dateTimeValue s =
     (if length s = 16 \<and> s ! 10 = CHR ''T'' then
        (case (dateValue (take 10 s), timeOfDayValue (drop 11 s)) of
           (Some d, Some t) \<Rightarrow> Some (d + t)
         | _ \<Rightarrow> None)
      else None)"

text \<open>\<open>Date.prototype.getDay\<close>: 0 is Sunday; 1970-01-01 was a Thursday. \<open>NaN\<close> stays \<open>NaN\<close>.\<close>

definition getDay :: "int option \<Rightarrow> int option" where
  "getDay v = (case v of None \<Rightarrow> None | Some ms \<Rightarrow> Some ((ms div Day + 4) mod 7))"

text \<open>\<open>===\<close> on two numbers that may be \<open>NaN\<close>: \<open>NaN\<close> equals nothing, itself included.\<close>

definition strictEqualsNumber :: "int option \<Rightarrow> int option \<Rightarrow> bool" where
  "strictEqualsNumber x y = (case (x, y) of (Some a, Some b) \<Rightarrow> a = b | _ \<Rightarrow> False)"

subsection \<open>Queries of a period\<close>

definition getDateAsString :: "Period \<Rightarrow> string" where
  "getDateAsString p = date p"

definition getDateAsObject :: "Period \<Rightarrow> int option" where
  "getDateAsObject p = dateValue (date p)"

definition getStartTimeAsString :: "Period \<Rightarrow> string" where
  "getStartTimeAsString p = startTime p"

definition getStartDateTimeAsString :: "Period \<Rightarrow> string" where
  "getStartDateTimeAsString p = date p @ ''T'' @ startTime p"

definition getStartDateTimeAsObject :: "Period \<Rightarrow> int option" where
  "getStartDateTimeAsObject p = dateTimeValue (getStartDateTimeAsString p)"

definition getEndTimeAsString :: "Period \<Rightarrow> string" where
  "getEndTimeAsString p = endTime p"

definition getEndDateTimeAsString :: "Period \<Rightarrow> string" where
  "getEndDateTimeAsString p = date p @ ''T'' @ endTime p"

definition getEndDateTimeAsObject :: "Period \<Rightarrow> int option" where
  "getEndDateTimeAsObject p = dateTimeValue (getEndDateTimeAsString p)"

text \<open>A number as JavaScript prints it (an integer, in decimal).\<close>

definition digitChar :: "nat \<Rightarrow> char" where
  "digitChar n = ''0123456789'' ! n"

fun showNat :: "nat \<Rightarrow> string" where
  "showNat n = (if n < 10 then [digitChar n] else showNat (n div 10) @ [digitChar (n mod 10)])"

declare showNat.simps [simp del]

definition showInt :: "int \<Rightarrow> string" where
  "showInt i = (if i < 0 then CHR ''-'' # showNat (nat (- i)) else showNat (nat i))"

text \<open>\<open>Array.prototype.join(sep)\<close>; without an argument the separator is the comma.\<close>

fun joinSep :: "string \<Rightarrow> string list \<Rightarrow> string" where
  "joinSep sep [] = []"
| "joinSep sep [s] = s"
| "joinSep sep (s # t # ss) = s @ sep @ joinSep sep (t # ss)"

definition join :: "string list \<Rightarrow> string" where
  "join ss = joinSep '','' ss"

definition idsJoined :: "PeriodElement list \<Rightarrow> string" where
  "idsJoined es = join (map (\<lambda>e. showInt (id_elem e)) es)"

text \<open>
  \<open>hasTheSameElementsAs\<close>: for every entry of \<open>this.elements\<close>, the joined ids of the
  list equal those of the other period's list of the same type.
\<close>

definition hasTheSameElementsAs :: "Period \<Rightarrow> Period \<Rightarrow> bool" where
  "hasTheSameElementsAs this other =
     (idsJoined (classes (elements this)) = idsJoined (classes (elements other)) \<and>
      idsJoined (teachers (elements this)) = idsJoined (teachers (elements other)) \<and>
      idsJoined (subjects (elements this)) = idsJoined (subjects (elements other)) \<and>
      idsJoined (rooms (elements this)) = idsJoined (rooms (elements other)))"

definition allElements :: "Period \<Rightarrow> PeriodElement list" where
  "allElements p =
     classes (elements p) @ teachers (elements p) @ subjects (elements p) @ rooms (elements p)"

definition deviatesFromSchedule :: "Period \<Rightarrow> bool" where
  "deviatesFromSchedule p =
     (substitutionText p \<noteq> None \<or> lessonCode p \<noteq> Regular \<or>
      list_ex isSubstituted (allElements p))"

definition belongsToSameScheduleAs :: "Period \<Rightarrow> Period \<Rightarrow> bool" where
  "belongsToSameScheduleAs this other =
     (lessonNumber this = lessonNumber other \<and>
      strictEqualsNumber (getDay (getDateAsObject this)) (getDay (getDateAsObject other)) \<and>
      getStartTimeAsString this = getStartTimeAsString other \<and>
      getEndTimeAsString this = getEndTimeAsString other)"

definition canBeCombinedWith :: "Period \<Rightarrow> Period \<Rightarrow> bool" where
  "canBeCombinedWith this other =
     (lessonNumber this = lessonNumber other \<and>
      getDateAsString this = getDateAsString other \<and>
      (getStartTimeAsString this = getEndTimeAsString other \<or>
       getStartTimeAsString other = getEndTimeAsString this) \<and>
      lessonCode this = lessonCode other \<and>
      hasTheSameElementsAs this other)"

text \<open>
  \<open>[this, other].sort(...)\<close> by the start instants: the two are swapped when the
  comparator's difference is positive, and kept as they are when it is negative, zero or
  \<open>NaN\<close>.
\<close>

definition sortByStart :: "Period \<Rightarrow> Period \<Rightarrow> Period \<times> Period" where
  "sortByStart this other =
     (case (getStartDateTimeAsObject this, getStartDateTimeAsObject other) of
        (Some x, Some y) \<Rightarrow> if x - y > 0 then (other, this) else (this, other)
      | _ \<Rightarrow> (this, other))"

text \<open>
  \<open>combineWith\<close>: every argument of the new period comes from \<open>this\<close>, but the start
  time (of the earlier of the two) and the end time (of the later).
\<close>

definition combineWith :: "Period \<Rightarrow> Period \<Rightarrow> error + Period" where
  "combineWith this other =
     (case sortByStart this other of
        (earlier, later) \<Rightarrow>
          Period_new
            \<lparr> id_period = id_period this, lessonType = lessonType this,
              lessonCode = lessonCode this, lessonNumber = lessonNumber this,
              lessonText = lessonText this, substitutionText = substitutionText this,
              activityType = activityType this, studentGroup = studentGroup this,
              elements = elements this, date = getDateAsString this,
              startTime = getStartTimeAsString earlier,
              endTime = getEndTimeAsString later \<rparr>)"

section \<open>The RPC client\<close>

text \<open>
  The client's state is its cookie record, a plain object \<open>Record<string, string>\<close>:
  its own properties, in the order of their creation.
\<close>

type_synonym cookies = "(string \<times> string) list"

text \<open>
  What \<open>fetch\<close> answers, as far as \<open>request\<close> reads it: the status and its text, the
  decoded body (\<open>None\<close> when decoding it throws; otherwise the \<open>result\<close> and the
  \<open>error\<close> object, if there is one, with its code and message), and the name and value
  of every cookie in the response's \<open>Set-Cookie\<close> headers, as \<open>getSetCookies\<close> lists
  them.
\<close>

record response =
  status :: int
  statusText :: string
  body :: "(string \<times> (int \<times> string) option) option"
  setCookies :: "(string \<times> string) list"

datatype rpcFailure =
    HTTPStatusError int string
  | RPCError int string
  | DecodeError

text \<open>Writing an own property: an existing property keeps its place.\<close>

fun assignProperty :: "string \<Rightarrow> string \<Rightarrow> cookies \<Rightarrow> cookies" where
  "assignProperty n v [] = [(n, v)]"
| "assignProperty n v ((k, w) # cs) =
     (if k = n then (k, v) # cs else (k, w) # assignProperty n v cs)"

text \<open>
  \<open>this.cookies[name] = value\<close> on a plain object. The name \<open>__proto__\<close> is the
  accessor the object inherits from \<open>Object.prototype\<close>, whose setter ignores a string:
  no own property is created (on a standard runtime such as Node). Every other name
  creates or overwrites an own property.
\<close>

definition setCookie :: "string \<Rightarrow> string \<Rightarrow> cookies \<Rightarrow> cookies" where
  "setCookie n v cs = (if n = ''__proto__'' then cs else assignProperty n v cs)"

fun storeCookies :: "cookies \<Rightarrow> (string \<times> string) list \<Rightarrow> cookies" where
  "storeCookies cs [] = cs"
| "storeCookies cs ((n, v) # rest) = storeCookies (setCookie n v cs) rest"

text \<open>
  \<open>Object.entries\<close>: the properties whose names are array indices (canonical decimal
  numbers below \<open>2^32 - 1\<close>) come first, ascending by their number; the other properties
  follow in the order of their creation.
\<close>

definition decimalValue :: "string \<Rightarrow> nat" where
  "decimalValue s = foldl (\<lambda>n c. 10 * n + nat (digitVal c)) 0 s"

definition isArrayIndex :: "string \<Rightarrow> bool" where
  "isArrayIndex s =
     (s \<noteq> [] \<and> list_all isDigit s \<and> (length s = 1 \<or> hd s \<noteq> CHR ''0'') \<and>
      decimalValue s < 2 ^ 32 - 1)"

definition objectEntries :: "cookies \<Rightarrow> cookies" where
  "objectEntries cs =
     sort_key (\<lambda>e. decimalValue (fst e)) (filter (\<lambda>e. isArrayIndex (fst e)) cs) @
     filter (\<lambda>e. \<not> isArrayIndex (fst e)) cs"

text \<open>The \<open>Cookie\<close> header of a request: the entries as \<open>key=value\<close>, joined by \<open>;\<close>.\<close>

definition cookiePairs :: "cookies \<Rightarrow> string list" where
  "cookiePairs cs = map (\<lambda>(key, value). key @ ''='' @ value) (objectEntries cs)"

definition cookieHeader :: "cookies \<Rightarrow> string" where
  "cookieHeader cs = joinSep '';'' (cookiePairs cs)"

text \<open>
  \<open>request\<close>, after \<open>fetch\<close> has answered: the outcome (the thrown error or the result)
  and the client's cookies afterwards. The status is checked first, then the body is
  decoded, then the \<open>error\<close> member is checked; the cookies are stored last.
\<close>

definition request :: "cookies \<Rightarrow> response \<Rightarrow> (rpcFailure + string) \<times> cookies" where
  "request cs resp =
     (if status resp \<noteq> 200 then (Inl (HTTPStatusError 200 (statusText resp)), cs)
      else (case body resp of
              None \<Rightarrow> (Inl DecodeError, cs)
            | Some (result, Some (code, message)) \<Rightarrow> (Inl (RPCError code message), cs)
            | Some (result, None) \<Rightarrow> (Inr result, storeCookies cs (setCookies resp))))"

text \<open>
  A client that makes one request after the other: the \<open>Cookie\<close> header each request
  sends, given the responses in the order they arrive, and the cookies at the end.
\<close>

fun sentHeaders :: "cookies \<Rightarrow> response list \<Rightarrow> string list" where
  "sentHeaders cs [] = []"
| "sentHeaders cs (r # rs) = cookieHeader cs # sentHeaders (snd (request cs r)) rs"

fun cookiesAfter :: "cookies \<Rightarrow> response list \<Rightarrow> cookies" where
  "cookiesAfter cs [] = cs"
| "cookiesAfter cs (r # rs) = cookiesAfter (snd (request cs r)) rs"

text \<open>A response whose cookies \<open>request\<close> reaches: status 200, a decoded body, no error.\<close>

definition succeeds :: "response \<Rightarrow> bool" where
  "succeeds resp =
     (status resp = 200 \<and> (case body resp of Some (result, None) \<Rightarrow> True | _ \<Rightarrow> False))"

section \<open>Schedules\<close>

text \<open>
  Modelled from the spec: class \<open>Schedule\<close> is not among the sources. A schedule has
  its lessons in order, and their partition into the unchanged and the changed ones
  (the tests read \<open>lessons.unchanged\<close> and \<open>lessons.changed\<close>).
\<close>

record Schedule =
  lessons :: "Period list"
  unchanged :: "Period list"
  changed :: "Period list"

text \<open>
  Modelled from the spec: the classification of a group's lessons is not among the
  sources. The reference is the group's first lesson; a lesson is unchanged if its
  elements and its code match the reference's and it does not deviate from its schedule,
  and changed otherwise.
\<close>

definition isUnchanged :: "Period \<Rightarrow> Period \<Rightarrow> bool" where
  "isUnchanged reference p =
     (hasTheSameElementsAs p reference \<and> lessonCode p = lessonCode reference \<and>
      \<not> deviatesFromSchedule p)"

text \<open>
  Modelled from the spec: the schedule of a group, which is not among the sources. Every
  lesson of the group is classified against the group's first lesson, the first lesson
  included.
\<close>

definition classify :: "Period list \<Rightarrow> Schedule" where
  "classify g =
     (case g of
        [] \<Rightarrow> \<lparr> lessons = [], unchanged = [], changed = [] \<rparr>
      | reference # _ \<Rightarrow>
          \<lparr> lessons = g, unchanged = filter (isUnchanged reference) g,
            changed = filter (\<lambda>p. \<not> isUnchanged reference p) g \<rparr>)"

text \<open>
  Modelled from the spec: \<open>ScheduleCollection.fromLessons\<close> is not among the sources.
  The input is iterated in order, and a lesson joins an opened schedule if it belongs to
  the same schedule as that schedule's first member. The schedule looked for is the most
  recently opened one with such a first member: the repository's test of partial
  combination has the two hours of a weekly double lesson interleaved and expects each
  hour in one schedule. The groups are kept in the order of their opening.
\<close>

fun joinOpened :: "Period list list \<Rightarrow> Period \<Rightarrow> Period list list option" where
  "joinOpened [] p = None"
| "joinOpened (g # gs) p =
     (case joinOpened gs p of
        Some gs' \<Rightarrow> Some (g # gs')
      | None \<Rightarrow>
          (case g of
             [] \<Rightarrow> None
           | first # members \<Rightarrow>
               if belongsToSameScheduleAs p first then Some ((first # members @ [p]) # gs)
               else None))"

text \<open>
  Modelled from the spec: one step of the iteration of \<open>fromLessons\<close>: the lesson joins
  an opened schedule, otherwise a new schedule is opened.
\<close>

definition addLesson :: "Period list list \<Rightarrow> Period \<Rightarrow> Period list list" where
  "addLesson gs p = (case joinOpened gs p of Some gs' \<Rightarrow> gs' | None \<Rightarrow> gs @ [[p]])"

text \<open>
  Modelled from the spec: the groups after the iteration over the whole input, starting
  with no group.
\<close>

definition groupLessons :: "Period list \<Rightarrow> Period list list" where
  "groupLessons ps = foldl addLesson [] ps"

text \<open>
  Modelled from the spec: \<open>fromLessons\<close>, the schedules of the groups of the iteration.
\<close>

definition fromLessons :: "Period list \<Rightarrow> Schedule list" where
  "fromLessons ps = map classify (groupLessons ps)"

text \<open>
  Modelled from the spec: the key of the second description of the grouping, which is
  not among the sources: lesson number, weekday, start time and end time.
\<close>

definition scheduleKey :: "Period \<Rightarrow> int \<times> int option \<times> string \<times> string" where
  "scheduleKey p =
     (lessonNumber p, getDay (getDateAsObject p), getStartTimeAsString p,
      getEndTimeAsString p)"

text \<open>
  Modelled from the spec: the second description of the grouping, a stable partition by
  key. The groups come in the order in which their keys are first seen, and each group
  keeps the order of the input.
\<close>

function partitionByKey :: "Period list \<Rightarrow> Period list list" where
  "partitionByKey [] = []"
| "partitionByKey (p # ps) =
     (p # filter (\<lambda>q. scheduleKey q = scheduleKey p) ps) #
     partitionByKey (filter (\<lambda>q. scheduleKey q \<noteq> scheduleKey p) ps)"
  by pat_completeness auto
termination
  by (relation "measure length") (auto simp: less_Suc_eq_le)

text \<open>
  Modelled from the spec: \<open>fromLessons\<close> by its second description, the schedules of
  the groups of the partition by key.
\<close>

definition fromLessonsByKey :: "Period list \<Rightarrow> Schedule list" where
  "fromLessonsByKey ps = map classify (partitionByKey ps)"

subsection \<open>Derived notions used in the properties\<close>

definition sortedById :: "PeriodElement list \<Rightarrow> bool" where
  "sortedById es = sorted (map id_elem es)"

text \<open>
  The invariant the spec states for a period: the start instant is strictly before the
  end instant. An invalid instant satisfies nothing.
\<close>

definition startsBeforeEnd :: "Period \<Rightarrow> bool" where
  "startsBeforeEnd p =
     (case (getStartDateTimeAsObject p, getEndDateTimeAsObject p) of
        (Some s, Some e) \<Rightarrow> s < e
      | _ \<Rightarrow> False)"

text \<open>The two variables \<open>earlier\<close> and \<open>later\<close> of \<open>combineWith\<close>.\<close>

definition earlierOf :: "Period \<Rightarrow> Period \<Rightarrow> Period" where
  "earlierOf this other = fst (sortByStart this other)"

definition laterOf :: "Period \<Rightarrow> Period \<Rightarrow> Period" where
  "laterOf this other = snd (sortByStart this other)"



section \<open>Example values\<close>

text \<open>
  The lessons of the repository's tests: lesson type \<open>lesson\<close>, lesson number 1, no texts,
  student group \<open>1\<close>; the id, the date, the times, the code and the elements vary.
\<close>

definition noElements :: elements where
  "noElements = \<lparr> classes = [], teachers = [], subjects = [], rooms = [] \<rparr>"

definition testLesson :: "int \<Rightarrow> string \<Rightarrow> string \<Rightarrow> string \<Rightarrow> lessonCode \<Rightarrow> elements \<Rightarrow> Period" where
  "testLesson i d s e c els =
     \<lparr> id_period = i, lessonType = Lesson, lessonCode = c, lessonNumber = 1,
       lessonText = [], substitutionText = None, activityType = Unterricht,
       studentGroup = Some ''1'', elements = els, date = d, startTime = s, endTime = e \<rparr>"

definition zeroOrgidElement :: element where
  "zeroOrgidElement =
     \<lparr> id_raw = 7, name_raw = ''Mu'', longname_raw = ''Music'', orgid = Some 0,
       orgname = Some ''Ma'' \<rparr>"

definition substitutedRaw :: element where
  "substitutedRaw =
     \<lparr> id_raw = 7, name_raw = ''Mu'', longname_raw = ''Music'', orgid = Some 3,
       orgname = Some ''Ma'' \<rparr>"

definition unsortedElements :: elements where
  "unsortedElements =
     \<lparr> classes = [PeriodElement 3 ''7c'' ''7c'', PeriodElement 1 ''7a'' ''7a'',
                  PeriodElement 2 ''7b'' ''7b''],
       teachers = [SubstitutedPeriodElement 9 ''Xy'' ''Xy'' 4 ''Ab'', PeriodElement 5 ''Cd'' ''Cd''],
       subjects = [PeriodElement 6 ''Ma'' ''Maths''],
       rooms = [PeriodElement 8 ''R8'' ''R8'', PeriodElement 8 ''R8b'' ''R8b'',
                PeriodElement 2 ''R2'' ''R2''] \<rparr>"

definition sortedElements :: elements where
  "sortedElements =
     \<lparr> classes = [PeriodElement 1 ''7a'' ''7a'', PeriodElement 2 ''7b'' ''7b'',
                  PeriodElement 3 ''7c'' ''7c''],
       teachers = [PeriodElement 5 ''Cd'' ''Cd'', SubstitutedPeriodElement 9 ''Xy'' ''Xy'' 4 ''Ab''],
       subjects = [PeriodElement 6 ''Ma'' ''Maths''],
       rooms = [PeriodElement 2 ''R2'' ''R2'', PeriodElement 8 ''R8'' ''R8'',
                PeriodElement 8 ''R8b'' ''R8b''] \<rparr>"

definition unsortedLesson :: Period where
  "unsortedLesson = testLesson 1 ''2022-04-20'' ''12:00'' ''13:00'' Regular unsortedElements"

definition sortedLesson :: Period where
  "sortedLesson = testLesson 1 ''2022-04-20'' ''12:00'' ''13:00'' Regular sortedElements"

definition followingLesson :: Period where
  "followingLesson = testLesson 2 ''2022-04-20'' ''13:00'' ''14:00'' Regular sortedElements"

definition combinedSortedLesson :: Period where
  "combinedSortedLesson =
     testLesson 1 ''2022-04-20'' ''12:00'' ''14:00'' Regular sortedElements"

definition endsBeforeStart :: Period where
  "endsBeforeStart = testLesson 1 ''2022-04-20'' ''13:00'' ''12:00'' Regular noElements"

definition malformedDate :: Period where
  "malformedDate = testLesson 1 ''20.04.2022'' ''12:00'' ''13:00'' Regular noElements"

definition firstHour :: Period where
  "firstHour = testLesson 1 ''2022-04-20'' ''12:00'' ''13:00'' Regular noElements"

definition secondHour :: Period where
  "secondHour = testLesson 2 ''2022-04-20'' ''13:00'' ''14:00'' Regular noElements"

text \<open>Responses of the server: two that fail, a login that sets cookies, a plain result.\<close>

definition failedStatusResponse :: response where
  "failedStatusResponse =
     \<lparr> status = 500, statusText = ''Internal Server Error'', body = None,
       setCookies = [(''JSESSIONID'', ''abc'')] \<rparr>"

definition rpcErrorResponse :: response where
  "rpcErrorResponse =
     \<lparr> status = 200, statusText = ''OK'',
       body = Some ([], Some (- 8520, ''not authenticated'')),
       setCookies = [(''JSESSIONID'', ''abc'')] \<rparr>"

definition loginResponse :: response where
  "loginResponse =
     \<lparr> status = 200, statusText = ''OK'', body = Some (''{}'', None),
       setCookies = [(''JSESSIONID'', ''abc''), (''schoolname'', ''_c2Nob29s'')] \<rparr>"

definition plainResponse :: response where
  "plainResponse =
     \<lparr> status = 200, statusText = ''OK'', body = Some (''[]'', None), setCookies = [] \<rparr>"

text \<open>The lessons of the tests of \<open>fromLessons\<close> and \<open>combineSequentialSchedules\<close>.\<close>

definition nextWeekFirstHour :: Period where
  "nextWeekFirstHour = testLesson 3 ''2022-04-27'' ''12:00'' ''13:00'' Regular noElements"

definition nextWeekSecondHourCancelled :: Period where
  "nextWeekSecondHourCancelled =
     testLesson 4 ''2022-04-27'' ''13:00'' ''14:00'' Cancelled noElements"

definition weeklyLessons :: "Period list" where
  "weeklyLessons =
     [firstHour, testLesson 2 ''2022-04-27'' ''12:00'' ''13:00'' Regular noElements]"


section \<open>Properties\<close>

lemmas timeUnits = Millisecond_def Second_def Minute_def Hour_def Day_def Week_def

subsection \<open>Sorting by id\<close>

lemma set_insertById: "set (insertById e xs) = insert e (set xs)"
  by (induction xs) auto

lemma sorted_insertById:
  "sorted (map id_elem xs) \<Longrightarrow> sorted (map id_elem (insertById e xs))"
  by (induction xs) (auto simp: set_insertById)

lemma sorted_sortById: "sorted (map id_elem (sortById es))"
  by (induction es) (auto simp: sorted_insertById)

lemma mset_insertById: "mset (insertById e xs) = add_mset e (mset xs)"
  by (induction xs) auto

lemma mset_sortById: "mset (sortById es) = mset es"
  by (induction es) (auto simp: mset_insertById)

lemma insertById_sorted: "sorted (map id_elem (e # xs)) \<Longrightarrow> insertById e xs = e # xs"
  by (cases xs) auto

lemma sortById_sorted: "sorted (map id_elem es) \<Longrightarrow> sortById es = es"
  by (induction es) (auto simp: insertById_sorted simp del: insertById.simps)

lemma sortById_idem: "sortById (sortById es) = sortById es"
  by (simp add: sortById_sorted sorted_sortById)

lemma sortElements_idem: "sortElements (sortElements els) = sortElements els"
  by (simp add: sortElements_def sortById_idem)

subsection \<open>Elements\<close>

text \<open>
  C7 (as amended). \<open>PeriodElement.from\<close> yields the substituted variant if and only if
  the original id and the original name are both present and truthy: the id is not zero
  and the name is not empty. When either is absent the result is a plain element with
  the record's id, name and long name; when both are present and truthy the result
  carries them. \<open>isSubstituted\<close> is true of the substituted variant only.
\<close>

theorem PeriodElement_from_substituted_iff_truthy:
  "(isSubstituted (PeriodElement_from e) \<longleftrightarrow>
      (\<exists>oi on. orgid e = Some oi \<and> oi \<noteq> 0 \<and> orgname e = Some on \<and> on \<noteq> [])) \<and>
   (orgid e = None \<or> orgname e = None \<longrightarrow>
      PeriodElement_from e = PeriodElement (id_raw e) (name_raw e) (longname_raw e)) \<and>
   (\<forall>oi on. orgid e = Some oi \<and> oi \<noteq> 0 \<and> orgname e = Some on \<and> on \<noteq> [] \<longrightarrow>
      PeriodElement_from e =
        SubstitutedPeriodElement (id_raw e) (name_raw e) (longname_raw e) oi on) \<and>
   (\<forall>x. isSubstituted x \<longleftrightarrow>
      (\<exists>i n l oi on. x = SubstitutedPeriodElement i n l oi on))"
proof -
  have sub: "isSubstituted x \<longleftrightarrow> (\<exists>i n l oi on. x = SubstitutedPeriodElement i n l oi on)" for x
    by (cases x) auto
  show ?thesis
    using sub
    by (auto simp: PeriodElement_from_def truthyNumber_def truthyString_def
        split: option.splits)
qed

theorem PeriodElement_from_substituted_iff_truthy_witness:
  "orgid substitutedRaw = Some 3 \<and> orgname substitutedRaw = Some ''Ma'' \<and>
   PeriodElement_from substitutedRaw = SubstitutedPeriodElement 7 ''Mu'' ''Music'' 3 ''Ma'' \<and>
   isSubstituted (PeriodElement_from substitutedRaw) \<and>
   PeriodElement_from (substitutedRaw\<lparr>orgname := None\<rparr>) = PeriodElement 7 ''Mu'' ''Music''"
  using PeriodElement_from_substituted_iff_truthy [of substitutedRaw]
    PeriodElement_from_substituted_iff_truthy [of "substitutedRaw\<lparr>orgname := None\<rparr>"]
  by (simp add: substitutedRaw_def)

text \<open>
  C7 as stated fails: a record whose original id is present but zero, with its original
  name present, becomes a plain element.
\<close>

theorem PeriodElement_from_present_not_substituted:
  "orgid zeroOrgidElement \<noteq> None \<and> orgname zeroOrgidElement \<noteq> None \<and>
   PeriodElement_from zeroOrgidElement = PeriodElement 7 ''Mu'' ''Music'' \<and>
   \<not> isSubstituted (PeriodElement_from zeroOrgidElement)"
  by (simp add: zeroOrgidElement_def PeriodElement_from_def truthyNumber_def truthyString_def)

lemmas dateDefs = dateTimeValue_def getDay_def isDigit_def digitVal_def daysFromCivil_def
  timeUnits

subsection \<open>Construction of a period\<close>

lemma Period_new_unsortedLesson: "Period_new unsortedLesson = Inr sortedLesson"
  by (simp add: Period_new_def unsortedLesson_def sortedLesson_def testLesson_def
      unsortedElements_def sortedElements_def sortElements_def isDigit_def)

lemma Period_new_Inr:
  "Period_new x = Inr a \<Longrightarrow>
     testDate (date a) \<and> testTime (startTime a) \<and> testTime (endTime a) \<and>
     sortElements (elements a) = elements a"
  by (auto simp: Period_new_def sortElements_idem split: if_splits)

text \<open>
  C8. Whatever the order of the four element lists handed to the constructor, each list
  of the constructed period is sorted ascending by element id. A period built by
  \<open>combineWith\<close> goes through the same constructor, so its lists are sorted as well.
\<close>

theorem Period_new_buckets_sorted:
  "(Period_new args = Inr p \<longrightarrow>
      sortedById (classes (elements p)) \<and> sortedById (teachers (elements p)) \<and>
      sortedById (subjects (elements p)) \<and> sortedById (rooms (elements p))) \<and>
   (combineWith a b = Inr q \<longrightarrow>
      sortedById (classes (elements q)) \<and> sortedById (teachers (elements q)) \<and>
      sortedById (subjects (elements q)) \<and> sortedById (rooms (elements q)))"
proof -
  have new: "sortedById (classes (elements p)) \<and> sortedById (teachers (elements p)) \<and>
      sortedById (subjects (elements p)) \<and> sortedById (rooms (elements p))"
    if "Period_new args = Inr p" for args p
    using that
    by (auto simp: Period_new_def sortElements_def sortedById_def sorted_sortById
        split: if_splits)
  show ?thesis
    using new by (auto simp: combineWith_def split: prod.splits)
qed

lemma combineWith_sortedLesson_followingLesson:
  "combineWith sortedLesson followingLesson = Inr combinedSortedLesson"
proof -
  have "getStartDateTimeAsObject sortedLesson = Some 1650456000000"
    by (simp add: sortedLesson_def testLesson_def getStartDateTimeAsObject_def
        getStartDateTimeAsString_def dateDefs)
  moreover have "getStartDateTimeAsObject followingLesson = Some 1650459600000"
    by (simp add: followingLesson_def testLesson_def getStartDateTimeAsObject_def
        getStartDateTimeAsString_def dateDefs)
  ultimately have "sortByStart sortedLesson followingLesson = (sortedLesson, followingLesson)"
    by (simp add: sortByStart_def)
  then show ?thesis
    by (simp add: combineWith_def Period_new_def)
       (simp add: sortedLesson_def followingLesson_def combinedSortedLesson_def testLesson_def
          sortedElements_def sortElements_def isDigit_def getDateAsString_def
          getStartTimeAsString_def getEndTimeAsString_def)
qed

theorem Period_new_buckets_sorted_witness:
  "Period_new unsortedLesson = Inr sortedLesson \<and>
   sortedById (classes (elements sortedLesson)) \<and>
   sortedById (teachers (elements sortedLesson)) \<and>
   sortedById (subjects (elements sortedLesson)) \<and>
   sortedById (rooms (elements sortedLesson)) \<and>
   combineWith sortedLesson followingLesson = Inr combinedSortedLesson \<and>
   sortedById (classes (elements combinedSortedLesson)) \<and>
   sortedById (teachers (elements combinedSortedLesson)) \<and>
   sortedById (subjects (elements combinedSortedLesson)) \<and>
   sortedById (rooms (elements combinedSortedLesson))"
  using Period_new_buckets_sorted [of unsortedLesson sortedLesson sortedLesson
      followingLesson combinedSortedLesson]
    Period_new_unsortedLesson combineWith_sortedLesson_followingLesson
  by blast

text \<open>
  C10. Each element list of the constructed period holds exactly the elements of the
  list given to the constructor, with their multiplicities: nothing is added, dropped or
  altered, the list is only reordered.
\<close>

theorem Period_new_buckets_same_multiset:
  "Period_new args = Inr p \<Longrightarrow>
     mset (classes (elements p)) = mset (classes (elements args)) \<and>
     mset (teachers (elements p)) = mset (teachers (elements args)) \<and>
     mset (subjects (elements p)) = mset (subjects (elements args)) \<and>
     mset (rooms (elements p)) = mset (rooms (elements args))"
  by (auto simp: Period_new_def sortElements_def mset_sortById split: if_splits)

theorem Period_new_buckets_same_multiset_witness:
  "Period_new unsortedLesson = Inr sortedLesson \<and>
   mset (classes (elements sortedLesson)) = mset (classes (elements unsortedLesson)) \<and>
   mset (teachers (elements sortedLesson)) = mset (teachers (elements unsortedLesson)) \<and>
   mset (subjects (elements sortedLesson)) = mset (subjects (elements unsortedLesson)) \<and>
   mset (rooms (elements sortedLesson)) = mset (rooms (elements unsortedLesson))"
  using Period_new_buckets_same_multiset [of unsortedLesson sortedLesson]
    Period_new_unsortedLesson
  by blast

text \<open>
  C5 (as amended). Construction throws exactly when the date string or one of the two
  time strings fails its format check. A period that is constructed has a well-formed
  date, start time and end time, the ones it was given; the order of the two times is
  not checked.
\<close>

theorem Period_new_fails_iff_malformed:
  "(Period_new args = Inl ValidationError \<longleftrightarrow>
      \<not> testDate (date args) \<or> \<not> testTime (startTime args) \<or> \<not> testTime (endTime args)) \<and>
   (\<forall>p. Period_new args = Inr p \<longrightarrow>
      testDate (date p) \<and> testTime (startTime p) \<and> testTime (endTime p) \<and>
      date p = date args \<and> startTime p = startTime args \<and> endTime p = endTime args)"
  by (auto simp: Period_new_def)

theorem Period_new_fails_iff_malformed_witness:
  "\<not> testDate (date malformedDate) \<and> Period_new malformedDate = Inl ValidationError \<and>
   Period_new unsortedLesson = Inr sortedLesson \<and> testDate (date sortedLesson) \<and>
   testTime (startTime sortedLesson) \<and> testTime (endTime sortedLesson)"
proof -
  have bad: "\<not> testDate (date malformedDate)"
    by (simp add: malformedDate_def testLesson_def isDigit_def)
  show ?thesis
    using bad Period_new_fails_iff_malformed [of malformedDate]
      Period_new_fails_iff_malformed [of unsortedLesson] Period_new_unsortedLesson
    by blast
qed

text \<open>
  C5 as stated fails: a period that starts at 13:00 and ends at 12:00 of the same day is
  constructed without an error, and its start is not before its end.
\<close>

theorem Period_new_accepts_end_before_start:
  "Period_new endsBeforeStart = Inr endsBeforeStart \<and>
   getStartDateTimeAsObject endsBeforeStart = Some 1650459600000 \<and>
   getEndDateTimeAsObject endsBeforeStart = Some 1650456000000 \<and>
   \<not> startsBeforeEnd endsBeforeStart"
  by (simp add: Period_new_def endsBeforeStart_def testLesson_def noElements_def
      sortElements_def startsBeforeEnd_def getStartDateTimeAsObject_def
      getEndDateTimeAsObject_def getStartDateTimeAsString_def getEndDateTimeAsString_def
      dateDefs)


subsection \<open>Combining two periods\<close>

lemma hasTheSameElementsAs_sym: "hasTheSameElementsAs a b \<longleftrightarrow> hasTheSameElementsAs b a"
  by (auto simp: hasTheSameElementsAs_def)

text \<open>
  C4. \<open>canBeCombinedWith\<close> holds if and only if the lesson numbers are equal, the
  date strings are equal, the start time string of one period equals the end time string
  of the other (either way round), the lesson codes are equal and
  \<open>hasTheSameElementsAs\<close> holds. The predicate is symmetric.
\<close>

theorem canBeCombinedWith_iff_and_symmetric:
  "(canBeCombinedWith a b \<longleftrightarrow>
      lessonNumber a = lessonNumber b \<and> date a = date b \<and>
      (startTime a = endTime b \<or> startTime b = endTime a) \<and>
      lessonCode a = lessonCode b \<and> hasTheSameElementsAs a b) \<and>
   (canBeCombinedWith a b \<longleftrightarrow> canBeCombinedWith b a)"
proof -
  have unfolded: "canBeCombinedWith x y \<longleftrightarrow>
      lessonNumber x = lessonNumber y \<and> date x = date y \<and>
      (startTime x = endTime y \<or> startTime y = endTime x) \<and>
      lessonCode x = lessonCode y \<and> hasTheSameElementsAs x y" for x y
    by (simp add: canBeCombinedWith_def getDateAsString_def getStartTimeAsString_def
        getEndTimeAsString_def)
  have "canBeCombinedWith a b \<longleftrightarrow> canBeCombinedWith b a"
    unfolding unfolded using hasTheSameElementsAs_sym [of a b] by auto
  with unfolded [of a b] show ?thesis by blast
qed

lemma sortByStart_cases: "sortByStart a b = (a, b) \<or> sortByStart a b = (b, a)"
  by (simp add: sortByStart_def split: option.splits)

text \<open>
  C1 (as amended). For two constructed periods that can be combined, \<open>combineWith\<close>
  returns a period equal to \<open>this\<close> in every field but the two times: its start time
  is the start time of the earlier of the two and its end time the end time of the later.
  The earlier one is the period with the smaller start instant (\<open>this\<close> when the
  instants are equal). When \<open>this\<close> is the earlier one, the result is \<open>this\<close> with
  the end time of the other.
\<close>

theorem combineWith_keeps_this_but_times:
  assumes "Period_new x = Inr a" and "Period_new y = Inr b" and "canBeCombinedWith a b"
  shows "combineWith a b =
           Inr (a\<lparr>startTime := startTime (earlierOf a b), endTime := endTime (laterOf a b)\<rparr>) \<and>
         ((earlierOf a b, laterOf a b) = (a, b) \<or> (earlierOf a b, laterOf a b) = (b, a)) \<and>
         (\<forall>s t. getStartDateTimeAsObject a = Some s \<and> getStartDateTimeAsObject b = Some t \<longrightarrow>
            (earlierOf a b, laterOf a b) = (if t < s then (b, a) else (a, b))) \<and>
         (earlierOf a b = a \<and> laterOf a b = b \<longrightarrow> combineWith a b = Inr (a\<lparr>endTime := endTime b\<rparr>))"
proof -
  note A = Period_new_Inr [OF assms(1)] and B = Period_new_Inr [OF assms(2)]
  obtain e l where el: "sortByStart a b = (e, l)" by (cases "sortByStart a b")
  then have cases: "(e = a \<and> l = b) \<or> (e = b \<and> l = a)"
    using sortByStart_cases [of a b] by auto
  then have valid: "testTime (startTime e)" "testTime (endTime l)"
    using A B by auto
  have first: "combineWith a b = Inr (a\<lparr>startTime := startTime e, endTime := endTime l\<rparr>)"
    using A valid
    by (simp add: combineWith_def el Period_new_def getDateAsString_def
        getStartTimeAsString_def getEndTimeAsString_def)
  have order: "(e, l) = (if t < s then (b, a) else (a, b))"
    if "getStartDateTimeAsObject a = Some s" "getStartDateTimeAsObject b = Some t" for s t
    using that el by (auto simp: sortByStart_def)
  show ?thesis
    using first cases order by (auto simp: earlierOf_def laterOf_def el)
qed

lemma Period_new_firstHour: "Period_new firstHour = Inr firstHour"
  by (simp add: Period_new_def firstHour_def testLesson_def noElements_def
      sortElements_def isDigit_def)

lemma Period_new_secondHour: "Period_new secondHour = Inr secondHour"
  by (simp add: Period_new_def secondHour_def testLesson_def noElements_def
      sortElements_def isDigit_def)

lemma canBeCombinedWith_secondHour_firstHour: "canBeCombinedWith secondHour firstHour"
  by (simp add: canBeCombinedWith_def firstHour_def secondHour_def testLesson_def
      noElements_def hasTheSameElementsAs_def getDateAsString_def getStartTimeAsString_def
      getEndTimeAsString_def)

lemma start_firstHour: "getStartDateTimeAsObject firstHour = Some 1650456000000"
  by (simp add: firstHour_def testLesson_def getStartDateTimeAsObject_def
      getStartDateTimeAsString_def dateDefs)

lemma start_secondHour: "getStartDateTimeAsObject secondHour = Some 1650459600000"
  by (simp add: secondHour_def testLesson_def getStartDateTimeAsObject_def
      getStartDateTimeAsString_def dateDefs)

lemma sortByStart_secondHour_firstHour: "sortByStart secondHour firstHour = (firstHour, secondHour)"
  by (simp add: sortByStart_def start_firstHour start_secondHour)

theorem combineWith_keeps_this_but_times_witness:
  "Period_new secondHour = Inr secondHour \<and> Period_new firstHour = Inr firstHour \<and>
   canBeCombinedWith secondHour firstHour \<and>
   combineWith secondHour firstHour =
     Inr (secondHour\<lparr>startTime := startTime firstHour, endTime := endTime secondHour\<rparr>)"
proof -
  have e: "earlierOf secondHour firstHour = firstHour"
    by (simp add: earlierOf_def sortByStart_secondHour_firstHour)
  have l: "laterOf secondHour firstHour = secondHour"
    by (simp add: laterOf_def sortByStart_secondHour_firstHour)
  have "combineWith secondHour firstHour =
     Inr (secondHour\<lparr>startTime := startTime (earlierOf secondHour firstHour),
                       endTime := endTime (laterOf secondHour firstHour)\<rparr>)"
    using combineWith_keeps_this_but_times [OF Period_new_secondHour Period_new_firstHour
      canBeCombinedWith_secondHour_firstHour]
    by (rule conjunct1)
  then have "combineWith secondHour firstHour =
     Inr (secondHour\<lparr>startTime := startTime firstHour, endTime := endTime secondHour\<rparr>)"
    unfolding e l .
  with Period_new_secondHour Period_new_firstHour canBeCombinedWith_secondHour_firstHour
  show ?thesis by blast
qed

text \<open>
  C1 as stated fails: when \<open>this\<close> is the later period, the result keeps the id of
  \<open>this\<close> and not the id of the earlier period.
\<close>

theorem combineWith_later_this_differs_from_earlier:
  "Period_new secondHour = Inr secondHour \<and> Period_new firstHour = Inr firstHour \<and>
   canBeCombinedWith secondHour firstHour \<and>
   sortByStart secondHour firstHour = (firstHour, secondHour) \<and>
   combineWith secondHour firstHour =
     Inr (testLesson 2 ''2022-04-20'' ''12:00'' ''14:00'' Regular noElements) \<and>
   firstHour\<lparr>endTime := endTime secondHour\<rparr> =
     testLesson 1 ''2022-04-20'' ''12:00'' ''14:00'' Regular noElements \<and>
   combineWith secondHour firstHour \<noteq> Inr (firstHour\<lparr>endTime := endTime secondHour\<rparr>)"
proof -
  have result: "combineWith secondHour firstHour =
      Inr (testLesson 2 ''2022-04-20'' ''12:00'' ''14:00'' Regular noElements)"
    by (simp add: combineWith_def sortByStart_secondHour_firstHour Period_new_def)
       (simp add: firstHour_def secondHour_def testLesson_def noElements_def
          sortElements_def isDigit_def getDateAsString_def getStartTimeAsString_def
          getEndTimeAsString_def)
  have claimed: "firstHour\<lparr>endTime := endTime secondHour\<rparr> =
      testLesson 1 ''2022-04-20'' ''12:00'' ''14:00'' Regular noElements"
    by (simp add: firstHour_def secondHour_def testLesson_def)
  have differ: "testLesson 2 ''2022-04-20'' ''12:00'' ''14:00'' Regular noElements \<noteq>
      testLesson 1 ''2022-04-20'' ''12:00'' ''14:00'' Regular noElements"
    by (simp add: testLesson_def)
  show ?thesis
    using result claimed differ Period_new_secondHour Period_new_firstHour
      canBeCombinedWith_secondHour_firstHour sortByStart_secondHour_firstHour
    by simp
qed

subsection \<open>The cookies of the RPC client\<close>

lemma map_of_assignProperty: "map_of (assignProperty n v cs) = (map_of cs)(n \<mapsto> v)"
  by (induction cs) (auto simp: fun_eq_iff)

lemma map_of_setCookie:
  "map_of (setCookie n v cs) k =
     (if k = n \<and> n \<noteq> ''__proto__'' then Some v else map_of cs k)"
  by (simp add: setCookie_def map_of_assignProperty)

lemma map_of_storeCookies:
  "k \<noteq> ''__proto__'' \<Longrightarrow>
   map_of (storeCookies cs new) k = (map_of cs ++ map_of (rev new)) k"
proof (induction cs new rule: storeCookies.induct)
  case (1 cs)
  show ?case by simp
next
  case (2 cs n v rest)
  then show ?case
    by (auto simp: map_of_setCookie map_add_def split: option.splits)
qed

lemma request_not_succeeds: "\<not> succeeds r \<Longrightarrow> snd (request cs r) = cs"
  by (auto simp: request_def succeeds_def split: option.splits)

lemma request_succeeds:
  "succeeds r \<Longrightarrow> snd (request cs r) = storeCookies cs (setCookies r)"
  by (auto simp: request_def succeeds_def split: option.splits)

lemma request_keeps_cookie:
  assumes "map_of cs n = Some v" and "n \<noteq> ''__proto__''"
    and "succeeds r \<longrightarrow> n \<notin> fst ` set (setCookies r)"
  shows "map_of (snd (request cs r)) n = Some v"
proof (cases "succeeds r")
  case True
  with assms(3) have "map_of (rev (setCookies r)) n = None"
    by (simp add: map_of_eq_None_iff)
  with True assms(1,2) show ?thesis
    by (simp add: request_succeeds map_of_storeCookies map_add_def)
next
  case False
  with assms(1) show ?thesis by (simp add: request_not_succeeds)
qed

lemma cookiesAfter_keeps_cookie:
  "map_of cs n = Some v \<Longrightarrow> n \<noteq> ''__proto__'' \<Longrightarrow>
   list_all (\<lambda>r. succeeds r \<longrightarrow> n \<notin> fst ` set (setCookies r)) rs \<Longrightarrow>
   map_of (cookiesAfter cs rs) n = Some v"
  by (induction rs arbitrary: cs) (auto simp: request_keeps_cookie)

lemma set_objectEntries: "set (objectEntries cs) = set cs"
  by (auto simp: objectEntries_def)

lemma cookiePairs_member: "map_of cs n = Some v \<Longrightarrow> n @ ''='' @ v \<in> set (cookiePairs cs)"
proof -
  assume "map_of cs n = Some v"
  then have "(n, v) \<in> set (objectEntries cs)"
    by (simp add: set_objectEntries map_of_SomeD)
  then show ?thesis
    unfolding cookiePairs_def by force
qed

lemma length_sentHeaders: "length (sentHeaders cs rs) = length rs"
  by (induction rs arbitrary: cs) auto

lemma sentHeaders_snoc_not_Nil: "sentHeaders cs (rs @ [r]) \<noteq> []"
  using length_sentHeaders [of cs "rs @ [r]"] by auto

lemma last_sentHeaders:
  "last (sentHeaders cs (rs @ [r])) = cookieHeader (cookiesAfter cs rs)"
  by (induction rs arbitrary: cs) (auto simp: sentHeaders_snoc_not_Nil)

lemma cookie_record_example:
  "storeCookies [] [(''sid'', ''a''), (''__proto__'', ''x''), (''7'', ''b'')] =
     [(''sid'', ''a''), (''7'', ''b'')] \<and>
   cookieHeader [(''sid'', ''a''), (''7'', ''b'')] = ''7=b;sid=a''"
  by (simp add: setCookie_def cookieHeader_def cookiePairs_def objectEntries_def
      isArrayIndex_def isDigit_def decimalValue_def digitVal_def)

text \<open>
  C9 (as amended). A response with a status other than 200 makes \<open>request\<close> throw the
  status error, a body that cannot be decoded makes it throw, and an RPC error object makes it
  throw the RPC error; in each case the client's cookies stay as they were. A response
  that succeeds returns its result and has its cookies stored. A cookie it sets (with
  the value it sets last for that name, the name not being \<open>__proto__\<close>) is in the store
  after any further responses, as long as no later successful response sets a cookie of
  the same name, and the next request replays it: its \<open>Cookie\<close> header is a
  \<open>;\<close>-joined list of \<open>name=value\<close> pairs of which this cookie is one.
\<close>

theorem request_captures_cookies_on_success_only:
  "(status r \<noteq> 200 \<longrightarrow> request cs r = (Inl (HTTPStatusError 200 (statusText r)), cs)) \<and>
   (status r = 200 \<and> body r = None \<longrightarrow> request cs r = (Inl DecodeError, cs)) \<and>
   (\<forall>result code message.
      status r = 200 \<and> body r = Some (result, Some (code, message)) \<longrightarrow>
      request cs r = (Inl (RPCError code message), cs)) \<and>
   (\<forall>result.
      status r = 200 \<and> body r = Some (result, None) \<longrightarrow>
      request cs r = (Inr result, storeCookies cs (setCookies r))) \<and>
   (succeeds r \<and> n \<noteq> ''__proto__'' \<and> map_of (rev (setCookies r)) n = Some v \<and>
    list_all (\<lambda>r'. succeeds r' \<longrightarrow> n \<notin> fst ` set (setCookies r')) rs \<longrightarrow>
      map_of (cookiesAfter cs (r # rs)) n = Some v \<and>
      n @ ''='' @ v \<in> set (cookiePairs (cookiesAfter cs (r # rs))) \<and>
      (\<exists>pre post. last (sentHeaders cs (r # rs @ [next])) =
         joinSep '';'' (pre @ [n @ ''='' @ v] @ post)))"
proof -
  have outcomes:
    "status r \<noteq> 200 \<longrightarrow> request cs r = (Inl (HTTPStatusError 200 (statusText r)), cs)"
    "status r = 200 \<and> body r = None \<longrightarrow> request cs r = (Inl DecodeError, cs)"
    "\<forall>result code message.
      status r = 200 \<and> body r = Some (result, Some (code, message)) \<longrightarrow>
      request cs r = (Inl (RPCError code message), cs)"
    "\<forall>result.
      status r = 200 \<and> body r = Some (result, None) \<longrightarrow>
      request cs r = (Inr result, storeCookies cs (setCookies r))"
    by (simp_all add: request_def)
  have stored: "map_of (cookiesAfter cs (r # rs)) n = Some v"
    if "succeeds r" "n \<noteq> ''__proto__''" "map_of (rev (setCookies r)) n = Some v"
       "list_all (\<lambda>r'. succeeds r' \<longrightarrow> n \<notin> fst ` set (setCookies r')) rs"
  proof -
    have "map_of (snd (request cs r)) n = Some v"
      using that(1,2,3) by (simp add: request_succeeds map_of_storeCookies map_add_def)
    then show ?thesis
      using that(2,4) by (simp add: cookiesAfter_keeps_cookie)
  qed
  have replayed: "\<exists>pre post. last (sentHeaders cs (r # rs @ [next])) =
         joinSep '';'' (pre @ [n @ ''='' @ v] @ post)"
    if mem: "n @ ''='' @ v \<in> set (cookiePairs (cookiesAfter cs (r # rs)))"
  proof -
    obtain pre post where "cookiePairs (cookiesAfter cs (r # rs)) = pre @ [n @ ''='' @ v] @ post"
      using split_list [OF mem] by auto
    moreover have "last (sentHeaders cs (r # rs @ [next])) =
        joinSep '';'' (cookiePairs (cookiesAfter cs (r # rs)))"
      using last_sentHeaders [of cs "r # rs" "next"] by (simp add: cookieHeader_def)
    ultimately show ?thesis by metis
  qed
  show ?thesis
    using outcomes stored replayed cookiePairs_member by blast
qed

lemma succeeds_loginResponse: "succeeds loginResponse"
  by (simp add: succeeds_def loginResponse_def)

theorem request_captures_cookies_on_success_only_witness:
  "request [] failedStatusResponse =
     (Inl (HTTPStatusError 200 (statusText failedStatusResponse)), []) \<and>
   request [] rpcErrorResponse = (Inl (RPCError (- 8520) ''not authenticated''), []) \<and>
   succeeds loginResponse \<and> ''JSESSIONID'' \<noteq> ''__proto__'' \<and>
   map_of (rev (setCookies loginResponse)) ''JSESSIONID'' = Some ''abc'' \<and>
   list_all (\<lambda>r'. succeeds r' \<longrightarrow> ''JSESSIONID'' \<notin> fst ` set (setCookies r'))
     [plainResponse, rpcErrorResponse] \<and>
   ''JSESSIONID'' @ ''='' @ ''abc'' \<in>
     set (cookiePairs (cookiesAfter [] [loginResponse, plainResponse, rpcErrorResponse]))"
proof -
  have f: "status failedStatusResponse \<noteq> 200"
    by (simp add: failedStatusResponse_def)
  have e: "status rpcErrorResponse = 200 \<and>
      body rpcErrorResponse = Some ([], Some (- 8520, ''not authenticated''))"
    by (simp add: rpcErrorResponse_def)
  have p: "''JSESSIONID'' \<noteq> ''__proto__''" by simp
  have s: "map_of (rev (setCookies loginResponse)) ''JSESSIONID'' = Some ''abc''"
    by (simp add: loginResponse_def)
  have l: "list_all (\<lambda>r'. succeeds r' \<longrightarrow> ''JSESSIONID'' \<notin> fst ` set (setCookies r'))
     [plainResponse, rpcErrorResponse]"
    by (simp add: succeeds_def plainResponse_def rpcErrorResponse_def)
  note failed = request_captures_cookies_on_success_only [of failedStatusResponse "[]",
      THEN conjunct1, rule_format, OF f]
  note rpc = request_captures_cookies_on_success_only [of rpcErrorResponse "[]",
      THEN conjunct2, THEN conjunct2, THEN conjunct1, rule_format, OF e]
  note login = request_captures_cookies_on_success_only [of loginResponse "[]"
      "''JSESSIONID''" "''abc''" "[plainResponse, rpcErrorResponse]",
      THEN conjunct2, THEN conjunct2, THEN conjunct2, THEN conjunct2, rule_format,
      OF conjI [OF succeeds_loginResponse conjI [OF p conjI [OF s l]]]]
  show ?thesis
    using failed rpc login [THEN conjunct2, THEN conjunct1] succeeds_loginResponse p s l
    by (intro conjI)
qed

text \<open>
  C9 as stated fails: the cookie of a response with status 500, and the cookie of a
  response that carries an RPC error, are not stored, and the requests that follow send
  an empty \<open>Cookie\<close> header.
\<close>

theorem request_drops_cookies_of_failed_response:
  "setCookies failedStatusResponse = [(''JSESSIONID'', ''abc'')] \<and>
   request [] failedStatusResponse = (Inl (HTTPStatusError 200 ''Internal Server Error''), []) \<and>
   setCookies rpcErrorResponse = [(''JSESSIONID'', ''abc'')] \<and>
   request [] rpcErrorResponse = (Inl (RPCError (- 8520) ''not authenticated''), []) \<and>
   sentHeaders [] [failedStatusResponse, rpcErrorResponse, plainResponse] = [[], [], []]"
  by (simp add: request_def failedStatusResponse_def rpcErrorResponse_def plainResponse_def
      cookieHeader_def cookiePairs_def objectEntries_def)

subsection \<open>Grouping lessons into schedules\<close>

lemma addLesson_Nil: "addLesson [] p = [[p]]"
  by (simp add: addLesson_def)

lemma joinOpened_None:
  "\<forall>g\<in>set gs. g \<noteq> [] \<longrightarrow> \<not> belongsToSameScheduleAs p (hd g) \<Longrightarrow> joinOpened gs p = None"
  by (induction gs) (auto split: list.splits)

lemma addLesson_join:
  "joinOpened gs p = None \<Longrightarrow> belongsToSameScheduleAs p first \<Longrightarrow>
   addLesson ((first # members) # gs) p = (first # members @ [p]) # gs"
  by (simp add: addLesson_def)

lemma addLesson_skip:
  "\<not> belongsToSameScheduleAs p first \<Longrightarrow>
   addLesson ((first # members) # gs) p = (first # members) # addLesson gs p"
  by (simp add: addLesson_def split: option.splits)

lemma partitionByKey_heads:
  "g \<in> set (partitionByKey xs) \<Longrightarrow> g \<noteq> [] \<and> hd g \<in> set xs"
  by (induction xs arbitrary: g rule: partitionByKey.induct) auto

lemma belongs_iff_key:
  "getDateAsObject p \<noteq> None \<Longrightarrow>
   belongsToSameScheduleAs q p \<longleftrightarrow> scheduleKey q = scheduleKey p"
  by (auto simp: belongsToSameScheduleAs_def scheduleKey_def strictEqualsNumber_def
      getDay_def split: option.splits)

lemma addLesson_partitionByKey:
  "list_all (\<lambda>x. getDateAsObject x \<noteq> None) xs \<Longrightarrow>
   addLesson (partitionByKey xs) p = partitionByKey (xs @ [p])"
proof (induction xs rule: partitionByKey.induct)
  case 1
  show ?case by (simp add: addLesson_Nil)
next
  case (2 x xs)
  let ?others = "filter (\<lambda>q. scheduleKey q \<noteq> scheduleKey x) xs"
  have valid: "getDateAsObject x \<noteq> None" using "2.prems" by simp
  have valid_others: "list_all (\<lambda>x. getDateAsObject x \<noteq> None) ?others"
    using "2.prems" by (simp add: list_all_iff)
  show ?case
  proof (cases "scheduleKey p = scheduleKey x")
    case True
    have "\<not> belongsToSameScheduleAs p (hd g)" if "g \<in> set (partitionByKey ?others)" for g
    proof -
      have h: "hd g \<in> set ?others" using partitionByKey_heads [OF that] by simp
      then have "getDateAsObject (hd g) \<noteq> None" "scheduleKey (hd g) \<noteq> scheduleKey x"
        using valid_others by (auto simp: list_all_iff)
      then show ?thesis using True by (simp add: belongs_iff_key)
    qed
    then have "joinOpened (partitionByKey ?others) p = None"
      by (intro joinOpened_None) auto
    moreover have "belongsToSameScheduleAs p x"
      using True valid by (simp add: belongs_iff_key)
    ultimately show ?thesis
      using True by (simp add: addLesson_join)
  next
    case False
    then have "\<not> belongsToSameScheduleAs p x"
      using valid by (simp add: belongs_iff_key)
    then show ?thesis
      using False "2.IH" [OF valid_others] by (simp add: addLesson_skip)
  qed
qed

lemma foldl_addLesson_partitionByKey:
  "list_all (\<lambda>x. getDateAsObject x \<noteq> None) (xs @ ps) \<Longrightarrow>
   foldl addLesson (partitionByKey xs) ps = partitionByKey (xs @ ps)"
proof (induction ps arbitrary: xs)
  case Nil
  show ?case by simp
next
  case (Cons p ps)
  have "addLesson (partitionByKey xs) p = partitionByKey (xs @ [p])"
    using Cons.prems by (intro addLesson_partitionByKey) simp
  then show ?case
    using Cons.IH [of "xs @ [p]"] Cons.prems by simp
qed

lemma groupLessons_eq_partitionByKey:
  "list_all (\<lambda>x. getDateAsObject x \<noteq> None) ps \<Longrightarrow> groupLessons ps = partitionByKey ps"
  using foldl_addLesson_partitionByKey [of "[]" ps] by (simp add: groupLessons_def)

text \<open>
  C2. For a non-empty list of lessons that all have the same lesson number, the same
  weekday, the same start time and the same end time, \<open>fromLessons\<close> yields exactly
  one schedule, and the lessons of that schedule are the input in its order. The same
  holds of the grouping by key.
\<close>

theorem fromLessons_one_schedule:
  assumes "ps \<noteq> []"
    and "\<forall>p\<in>set ps. lessonNumber p = n \<and> getDay (getDateAsObject p) = Some wd \<and>
           getStartTimeAsString p = s \<and> getEndTimeAsString p = e"
  shows "fromLessons ps = [classify ps] \<and> lessons (classify ps) = ps \<and>
         fromLessonsByKey ps = [classify ps]"
proof -
  obtain p qs where ps: "ps = p # qs" using assms(1) by (cases ps) auto
  have valid: "list_all (\<lambda>x. getDateAsObject x \<noteq> None) ps"
    using assms(2) by (auto simp: list_all_iff getDay_def split: option.splits)
  have keys: "\<forall>q\<in>set qs. scheduleKey q = scheduleKey p"
    using assms(2) by (auto simp: ps scheduleKey_def)
  have "filter (\<lambda>q. scheduleKey q = scheduleKey p) qs = qs"
    using keys by (simp add: filter_id_conv)
  moreover have "filter (\<lambda>q. scheduleKey q \<noteq> scheduleKey p) qs = []"
    using keys by (simp add: filter_empty_conv)
  ultimately have one: "partitionByKey ps = [ps]"
    by (simp add: ps)
  then have "groupLessons ps = [ps]"
    using groupLessons_eq_partitionByKey [OF valid] by simp
  with one show ?thesis
    by (simp add: fromLessons_def fromLessonsByKey_def ps classify_def)
qed





lemmas periodDefs = firstHour_def secondHour_def nextWeekFirstHour_def
  nextWeekSecondHourCancelled_def testLesson_def noElements_def

lemma day_firstHour: "getDay (getDateAsObject firstHour) = Some 3"
  by (simp add: firstHour_def testLesson_def getDateAsObject_def dateDefs)

lemma day_secondHour: "getDay (getDateAsObject secondHour) = Some 3"
  by (simp add: secondHour_def testLesson_def getDateAsObject_def dateDefs)

lemma day_nextWeekFirstHour: "getDay (getDateAsObject nextWeekFirstHour) = Some 3"
  by (simp add: nextWeekFirstHour_def testLesson_def getDateAsObject_def dateDefs)

lemma day_nextWeekSecondHourCancelled:
  "getDay (getDateAsObject nextWeekSecondHourCancelled) = Some 3"
  by (simp add: nextWeekSecondHourCancelled_def testLesson_def getDateAsObject_def dateDefs)



lemma key_firstHour: "scheduleKey firstHour = (1, Some 3, ''12:00'', ''13:00'')"
  by (simp add: scheduleKey_def day_firstHour getStartTimeAsString_def getEndTimeAsString_def)
     (simp add: periodDefs)

lemma key_secondHour: "scheduleKey secondHour = (1, Some 3, ''13:00'', ''14:00'')"
  by (simp add: scheduleKey_def day_secondHour getStartTimeAsString_def getEndTimeAsString_def)
     (simp add: periodDefs)

lemma key_nextWeekFirstHour: "scheduleKey nextWeekFirstHour = (1, Some 3, ''12:00'', ''13:00'')"
  by (simp add: scheduleKey_def day_nextWeekFirstHour getStartTimeAsString_def
      getEndTimeAsString_def) (simp add: periodDefs)

lemma key_nextWeekSecondHourCancelled:
  "scheduleKey nextWeekSecondHourCancelled = (1, Some 3, ''13:00'', ''14:00'')"
  by (simp add: scheduleKey_def day_nextWeekSecondHourCancelled getStartTimeAsString_def
      getEndTimeAsString_def) (simp add: periodDefs)

lemmas keys = key_firstHour key_secondHour key_nextWeekFirstHour key_nextWeekSecondHourCancelled

theorem fromLessons_one_schedule_witness:
  "weeklyLessons \<noteq> [] \<and>
   fromLessons weeklyLessons = [classify weeklyLessons] \<and>
   lessons (classify weeklyLessons) = weeklyLessons \<and>
   fromLessonsByKey weeklyLessons = [classify weeklyLessons]"
proof -
  have day: "getDay (getDateAsObject (testLesson 2 ''2022-04-27'' ''12:00'' ''13:00'' Regular noElements)) = Some 3"
    by (simp add: testLesson_def getDateAsObject_def dateDefs)
  have rest: "lessonNumber (testLesson i d s e c els) = 1"
    "getStartTimeAsString (testLesson i d s e c els) = s"
    "getEndTimeAsString (testLesson i d s e c els) = e" for i d s e c els
    by (simp_all add: testLesson_def getStartTimeAsString_def getEndTimeAsString_def)
  have hyp: "\<forall>p\<in>set weeklyLessons. lessonNumber p = 1 \<and> getDay (getDateAsObject p) = Some 3 \<and>
      getStartTimeAsString p = ''12:00'' \<and> getEndTimeAsString p = ''13:00''"
    using day day_firstHour by (simp add: weeklyLessons_def firstHour_def rest)
  have ne: "weeklyLessons \<noteq> []" by (simp add: weeklyLessons_def)
  show ?thesis
    using fromLessons_one_schedule [OF ne hyp] ne by blast
qed






end
